theory Spec2Isabelle
  imports Main "HOL-Library.Word"
begin

section \<open>Subscript helpers of the runtime support layer (nuitka/helper/subscripts.hpp)\<close>

text \<open>
  The header defines four helpers that compiled code calls for \<open>x[i]\<close>, \<open>x[i] = v\<close> and
  \<open>del x[i]\<close>: \<open>LOOKUP_SUBSCRIPT_CONST\<close>, \<open>_LOOKUP_SUBSCRIPT\<close>, \<open>_SET_SUBSCRIPT\<close> and
  \<open>_DEL_SUBSCRIPT\<close>. They are embedded here as functions from the interpreter state to
  an outcome and the state that is left behind. A C++ \<open>throw\<close> is the outcome \<open>Thrown\<close>,
  a \<open>return\<close> is the outcome \<open>Returned\<close>, and a read outside an array is the outcome
  \<open>Undefined\<close>. The leading underscore of the last three names is dropped, since an
  identifier starts with a letter here; these are the names of the macros that wrap them.
\<close>

subsection \<open>Objects, types and the interpreter state\<close>

text \<open>A \<open>PyObject *\<close> is an address; the null pointer is \<open>None\<close> of \<open>addr option\<close>.\<close>

type_synonym addr = nat

text \<open>\<open>Py_ssize_t\<close> on a 64-bit host, and the C \<open>int\<close> of status results.\<close>

type_synonym Py_ssize_t = "64 word"
type_synonym c_int = "32 word"

datatype exception_type = PyExc_IndexError | PyExc_TypeError | PyExc_Other string

type_synonym pyerr = "exception_type \<times> string"

text \<open>
  The part of the process memory the helpers read or write: the error indicator
  (\<open>PyErr_Occurred\<close>), and of each object its reference count, its \<open>ob_size\<close>, the
  array behind \<open>ob_item\<close> of a list and the bytes behind \<open>ob_sval\<close> of a string.
\<close>

record pystate =
  curexc :: "pyerr option"
  ob_refcnt :: "addr \<Rightarrow> nat"
  ob_size :: "addr \<Rightarrow> Py_ssize_t"
  ob_item :: "addr \<Rightarrow> addr list"
  ob_sval :: "addr \<Rightarrow> 8 word list"

datatype 'a outcome = Returned 'a | Thrown "pyerr option" | Undefined

text \<open>The slot tables of a type. A slot that is a null function pointer is \<open>None\<close>.\<close>

record PyMappingMethods =
  mp_subscript :: "(addr \<Rightarrow> addr \<Rightarrow> pystate \<Rightarrow> addr option \<times> pystate) option"
  mp_ass_subscript :: "(addr \<Rightarrow> addr \<Rightarrow> addr \<Rightarrow> pystate \<Rightarrow> c_int \<times> pystate) option"

record PySequenceMethods =
  sq_item :: "(addr \<Rightarrow> Py_ssize_t \<Rightarrow> pystate \<Rightarrow> addr option \<times> pystate) option"
  sq_ass_item :: "(addr \<Rightarrow> Py_ssize_t \<Rightarrow> addr \<Rightarrow> pystate \<Rightarrow> c_int \<times> pystate) option"

record PyTypeObject =
  tp_name :: string
  tp_as_mapping :: "PyMappingMethods option"
  tp_as_sequence :: "PySequenceMethods option"

text \<open>A \<open>PyTypeObject *\<close>: the two built-in types the header tests for, or any other.\<close>

datatype type_ptr = PyList_Type | PyString_Type | Type_at nat

text \<open>
  What the header uses and does not define is a parameter of the embedding: the type of
  each object and the type objects (\<open>Py_TYPE\<close>, \<open>typeobjects\<close>), the interpreter's
  \<open>PyIndex_Check\<close>, \<open>PySequence_GetItem\<close>, \<open>PyNumber_AsSsize_t\<close> and
  \<open>PyObject_DelItem\<close>, the sibling helpers \<open>CONVERT_TO_INDEX\<close>, \<open>SEQUENCE_SETITEM\<close>
  and \<open>BUILTIN_CHR\<close> (the first two may throw), and the value of the preprocessor
  constant \<open>PYTHON_VERSION\<close>.
\<close>

record runtime =
  Py_TYPE :: "addr \<Rightarrow> type_ptr"
  typeobjects :: "type_ptr \<Rightarrow> PyTypeObject"
  PyIndex_Check :: "addr \<Rightarrow> bool"
  PySequence_GetItem :: "addr \<Rightarrow> Py_ssize_t \<Rightarrow> pystate \<Rightarrow> addr option \<times> pystate"
  PyNumber_AsSsize_t :: "addr \<Rightarrow> exception_type \<Rightarrow> pystate \<Rightarrow> Py_ssize_t \<times> pystate"
  PyObject_DelItem :: "addr \<Rightarrow> addr \<Rightarrow> pystate \<Rightarrow> c_int \<times> pystate"
  CONVERT_TO_INDEX :: "addr \<Rightarrow> pystate \<Rightarrow> Py_ssize_t outcome \<times> pystate"
  SEQUENCE_SETITEM :: "addr \<Rightarrow> Py_ssize_t \<Rightarrow> addr \<Rightarrow> pystate \<Rightarrow> unit outcome \<times> pystate"
  BUILTIN_CHR :: "8 word \<Rightarrow> pystate \<Rightarrow> addr option \<times> pystate"
  PYTHON_VERSION :: nat

subsection \<open>The primitives the helpers are written with\<close>

text \<open>\<open>PyErr_Format( exc, fmt, ... )\<close> stores the error and returns the null pointer.\<close>

definition PyErr_Format :: "exception_type \<Rightarrow> string \<Rightarrow> pystate \<Rightarrow> pystate" where
  "PyErr_Format exc msg s = s\<lparr>curexc := Some (exc, msg)\<rparr>"

text \<open>
  Modelled from the spec: the class \<open>_PythonException\<close> is not part of the header. By
  the spec's Error Translator, raising constructs an error that carries the kind and
  message already recorded in the pending error state, and clears that state.
\<close>

definition throw_PythonException :: "pystate \<Rightarrow> 'a outcome \<times> pystate" where
  "throw_PythonException s = (Thrown (curexc s), s\<lparr>curexc := None\<rparr>)"

text \<open>
  Modelled from the spec: \<open>THROW_IF_ERROR_OCCURED\<close> is not part of the header. It
  raises when the pending error state is set and returns otherwise.
\<close>

definition THROW_IF_ERROR_OCCURED :: "pystate \<Rightarrow> unit outcome \<times> pystate" where
  "THROW_IF_ERROR_OCCURED s =
     (if curexc s \<noteq> None then throw_PythonException s else (Returned (), s))"

text \<open>
  Modelled from the spec: \<open>INCREASE_REFCOUNT\<close> is not part of the header. It is the
  increment primitive of the ownership collaborator and returns its argument.
\<close>

definition INCREASE_REFCOUNT :: "addr \<Rightarrow> pystate \<Rightarrow> addr \<times> pystate" where
  "INCREASE_REFCOUNT obj s = (obj, s\<lparr>ob_refcnt := (ob_refcnt s)(obj := ob_refcnt s obj + 1)\<rparr>)"

text \<open>
  The three format strings with a \<open>%s\<close>, applied to the name that is printed there:
  \<open>"'%s' object is unsubscriptable"\<close>, \<open>"sequence index must be integer, not '%s'"\<close>
  and \<open>"'%s' object does not support item assignment"\<close>.
\<close>

definition squote :: string where
  "squote = [CHR 0x27]"

definition fmt_unsubscriptable :: "string \<Rightarrow> string" where
  "fmt_unsubscriptable name = squote @ name @ squote @ '' object is unsubscriptable''"

definition fmt_index_must_be_integer :: "string \<Rightarrow> string" where
  "fmt_index_must_be_integer name = ''sequence index must be integer, not '' @ squote @ name @ squote"

definition fmt_no_item_assignment :: "string \<Rightarrow> string" where
  "fmt_no_item_assignment name = squote @ name @ squote @ '' object does not support item assignment''"

text \<open>Sequencing: the code after a call runs only when the call returned.\<close>

definition and_then ::
  "'a outcome \<times> pystate \<Rightarrow> ('a \<Rightarrow> pystate \<Rightarrow> 'b outcome \<times> pystate) \<Rightarrow> 'b outcome \<times> pystate" where
  "and_then m f =
     (case m of
        (Returned x, s) \<Rightarrow> f x s
      | (Thrown e, s) \<Rightarrow> (Thrown e, s)
      | (Undefined, s) \<Rightarrow> (Undefined, s))"

text \<open>\<open>if ( result == NULL ) throw _PythonException(); return result;\<close>\<close>

definition throw_if_null :: "addr option \<times> pystate \<Rightarrow> addr option outcome \<times> pystate" where
  "throw_if_null r =
     (case r of
        (None, s) \<Rightarrow> throw_PythonException s
      | (Some obj, s) \<Rightarrow> (Returned (Some obj), s))"

text \<open>\<open>if ( res == -1 ) throw _PythonException();\<close>\<close>

definition throw_if_minus_one :: "c_int \<times> pystate \<Rightarrow> unit outcome \<times> pystate" where
  "throw_if_minus_one r =
     (case r of (res, s) \<Rightarrow> if res = - 1 then throw_PythonException s else (Returned (), s))"

definition type_of :: "runtime \<Rightarrow> addr \<Rightarrow> PyTypeObject" where
  "type_of rt obj = typeobjects rt (Py_TYPE rt obj)"

text \<open>\<open>m && m->slot\<close>: the slot of a table that may itself be absent.\<close>

definition slot_of :: "'t option \<Rightarrow> ('t \<Rightarrow> 'f option) \<Rightarrow> 'f option" where
  "slot_of table field = (case table of None \<Rightarrow> None | Some t \<Rightarrow> field t)"

definition PyList_CheckExact :: "runtime \<Rightarrow> addr \<Rightarrow> bool" where
  "PyList_CheckExact rt obj = (Py_TYPE rt obj = PyList_Type)"

definition PyString_CheckExact :: "runtime \<Rightarrow> addr \<Rightarrow> bool" where
  "PyString_CheckExact rt obj = (Py_TYPE rt obj = PyString_Type)"

text \<open>
  \<open>array[ i ]\<close> for a signed index: the element when \<open>i\<close> is inside the array, and
  undefined behaviour otherwise.
\<close>

definition array_read :: "'a list \<Rightarrow> Py_ssize_t \<Rightarrow> 'a option" where
  "array_read xs i =
     (if 0 \<le> sint i \<and> sint i < int (length xs) then Some (xs ! nat (sint i)) else None)"

subsection \<open>Index normalisation (lines 50-67 and 77-94)\<close>

text \<open>
  The block that both fast paths of \<open>LOOKUP_SUBSCRIPT_CONST\<close> run on \<open>int_subscript\<close>
  before they read the array. \<open>None\<close> stands for the two places where the block sets
  an \<open>IndexError\<close> and throws. All three quantities are \<open>Py_ssize_t\<close>, so the
  comparisons are signed and the negation and the addition are those of the machine:
  negating the least value overflows (undefined in C++) and gives the least value again.
\<close>

definition normalize_subscript :: "Py_ssize_t \<Rightarrow> Py_ssize_t \<Rightarrow> Py_ssize_t option" where
  "normalize_subscript int_subscript seq_size =
     (if int_subscript <s 0 then
        (if seq_size <s - int_subscript then None else Some (int_subscript + seq_size))
      else
        (if seq_size \<le>s int_subscript then None else Some int_subscript))"

subsection \<open>The four helpers\<close>

definition LOOKUP_SUBSCRIPT_CONST ::
  "runtime \<Rightarrow> addr \<Rightarrow> addr \<Rightarrow> Py_ssize_t \<Rightarrow> pystate \<Rightarrow> addr option outcome \<times> pystate" where
  "LOOKUP_SUBSCRIPT_CONST rt source const_subscript int_subscript s =
     (let type = type_of rt source; m = tp_as_mapping type in
      case slot_of m mp_subscript of
        Some subscript_fn \<Rightarrow>
          if PyList_CheckExact rt source then
            (case normalize_subscript int_subscript (ob_size s source) of
               None \<Rightarrow>
                 throw_PythonException (PyErr_Format PyExc_IndexError ''list index out of range'' s)
             | Some i \<Rightarrow>
                 (case array_read (ob_item s source) i of
                    None \<Rightarrow> (Undefined, s)
                  | Some item \<Rightarrow>
                      (case INCREASE_REFCOUNT item s of (obj, s') \<Rightarrow> (Returned (Some obj), s'))))
          else if PYTHON_VERSION rt < 300 \<and> PyString_CheckExact rt source then
            (case normalize_subscript int_subscript (ob_size s source) of
               None \<Rightarrow>
                 throw_PythonException (PyErr_Format PyExc_IndexError ''string index out of range'' s)
             | Some i \<Rightarrow>
                 (case array_read (ob_sval s source) i of
                    None \<Rightarrow> (Undefined, s)
                  | Some c \<Rightarrow> (case BUILTIN_CHR rt c s of (obj, s') \<Rightarrow> (Returned obj, s'))))
          else
            throw_if_null (subscript_fn source const_subscript s)
      | None \<Rightarrow>
          if tp_as_sequence type \<noteq> None then
            throw_if_null (PySequence_GetItem rt source int_subscript s)
          else
            (Returned None,
             PyErr_Format PyExc_TypeError
               (fmt_unsubscriptable (tp_name (type_of rt source))) s))"

definition LOOKUP_SUBSCRIPT ::
  "runtime \<Rightarrow> addr \<Rightarrow> addr \<Rightarrow> pystate \<Rightarrow> addr option outcome \<times> pystate" where
  "LOOKUP_SUBSCRIPT rt source subscript s =
     (let type = type_of rt source; mapping = tp_as_mapping type in
      case slot_of mapping mp_subscript of
        Some subscript_fn \<Rightarrow> throw_if_null (subscript_fn source subscript s)
      | None \<Rightarrow>
          if tp_as_sequence type \<noteq> None then
            if PyIndex_Check rt subscript then
              and_then (CONVERT_TO_INDEX rt subscript s)
                (\<lambda>i s'. throw_if_null (PySequence_GetItem rt source i s'))
            else if slot_of (tp_as_sequence type) sq_item \<noteq> None then
              throw_PythonException
                (PyErr_Format PyExc_TypeError
                   (fmt_index_must_be_integer (tp_name (type_of rt subscript))) s)
            else
              (Returned None,
               PyErr_Format PyExc_TypeError
                 (fmt_unsubscriptable (tp_name (type_of rt source))) s)
          else
            (Returned None,
             PyErr_Format PyExc_TypeError
               (fmt_unsubscriptable (tp_name (type_of rt source))) s))"

definition SET_SUBSCRIPT ::
  "runtime \<Rightarrow> addr \<Rightarrow> addr \<Rightarrow> addr \<Rightarrow> pystate \<Rightarrow> unit outcome \<times> pystate" where
  "SET_SUBSCRIPT rt val target subscript s =
     (let mapping_methods = tp_as_mapping (type_of rt target) in
      case slot_of mapping_methods mp_ass_subscript of
        Some ass_subscript_fn \<Rightarrow> throw_if_minus_one (ass_subscript_fn target subscript val s)
      | None \<Rightarrow>
          if tp_as_sequence (type_of rt target) \<noteq> None then
            if PyIndex_Check rt subscript then
              (case PyNumber_AsSsize_t rt subscript PyExc_IndexError s of
                 (key_value, s') \<Rightarrow>
                   and_then
                     (if key_value = - 1 then THROW_IF_ERROR_OCCURED s' else (Returned (), s'))
                     (\<lambda>_ s''. SEQUENCE_SETITEM rt target key_value val s''))
            else if slot_of (tp_as_sequence (type_of rt target)) sq_ass_item \<noteq> None then
              throw_PythonException
                (PyErr_Format PyExc_TypeError
                   (fmt_index_must_be_integer (tp_name (type_of rt subscript))) s)
            else
              throw_PythonException
                (PyErr_Format PyExc_TypeError
                   (fmt_no_item_assignment (tp_name (type_of rt target))) s)
          else
            throw_PythonException
              (PyErr_Format PyExc_TypeError
                 (fmt_no_item_assignment (tp_name (type_of rt target))) s))"

definition DEL_SUBSCRIPT ::
  "runtime \<Rightarrow> addr \<Rightarrow> addr \<Rightarrow> pystate \<Rightarrow> unit outcome \<times> pystate" where
  "DEL_SUBSCRIPT rt target subscript s =
     throw_if_minus_one (PyObject_DelItem rt target subscript s)"

subsection \<open>The least index\<close>

definition PY_SSIZE_T_MIN :: Py_ssize_t where
  "PY_SSIZE_T_MIN = - 0x8000000000000000"

subsection \<open>A sample heap and runtime\<close>

text \<open>
  Concrete objects on which the statements below are evaluated. Object 1 is the list
  \<open>[10, 20, 30]\<close> (its items are the objects at 10, 20 and 30), object 3 the string
  \<open>"x"\<close>, object 4 an \<open>xrange\<close> (a sequence table with \<open>sq_item\<close> only, no mapping
  table), object 5 a \<open>deque\<close> holding the same three items (a sequence table with both
  slots, no mapping table), object 6 a \<open>set\<close> (a sequence table with neither slot),
  object 9 a \<open>dict\<close> (a mapping table only). Every other object is an \<open>int\<close>, which
  has no table at all; object 2 is the number 1, object 7 the number \<open>2^63\<close>, object 8
  the number -1.
\<close>

definition demo_Py_TYPE :: "addr \<Rightarrow> type_ptr" where
  "demo_Py_TYPE obj =
     (if obj = 1 then PyList_Type
      else if obj = 3 then PyString_Type
      else if obj = 4 then Type_at 1
      else if obj = 5 then Type_at 2
      else if obj = 6 then Type_at 3
      else if obj = 9 then Type_at 4
      else Type_at 0)"

definition demo_int_value :: "addr \<Rightarrow> int" where
  "demo_int_value obj =
     (if obj = 2 then 1 else if obj = 7 then 2 ^ 63 else if obj = 8 then - 1 else int obj)"

definition demo_mp_subscript :: "addr \<Rightarrow> addr \<Rightarrow> pystate \<Rightarrow> addr option \<times> pystate" where
  "demo_mp_subscript obj key s =
     (if key = 3 then (Some 20, s)
      else (None, PyErr_Format (PyExc_Other ''KeyError'') ''missing key'' s))"

definition demo_mp_ass_subscript :: "addr \<Rightarrow> addr \<Rightarrow> addr \<Rightarrow> pystate \<Rightarrow> c_int \<times> pystate" where
  "demo_mp_ass_subscript obj key v s = (0, s)"

definition demo_sq_item :: "addr \<Rightarrow> Py_ssize_t \<Rightarrow> pystate \<Rightarrow> addr option \<times> pystate" where
  "demo_sq_item obj i s =
     (case array_read (ob_item s obj) i of
        None \<Rightarrow> (None, PyErr_Format PyExc_IndexError ''index out of range'' s)
      | Some item \<Rightarrow> (Some item, s))"

definition demo_sq_ass_item :: "addr \<Rightarrow> Py_ssize_t \<Rightarrow> addr \<Rightarrow> pystate \<Rightarrow> c_int \<times> pystate" where
  "demo_sq_ass_item obj i v s =
     (if 0 \<le> sint i \<and> sint i < int (length (ob_item s obj)) then
        (0, s\<lparr>ob_item := (ob_item s)(obj := (ob_item s obj)[nat (sint i) := v])\<rparr>)
      else (- 1, PyErr_Format PyExc_IndexError ''assignment index out of range'' s))"

definition demo_typeobjects :: "type_ptr \<Rightarrow> PyTypeObject" where
  "demo_typeobjects t =
     (case t of
        PyList_Type \<Rightarrow>
          \<lparr>tp_name = ''list'',
           tp_as_mapping =
             Some \<lparr>mp_subscript = Some demo_mp_subscript, mp_ass_subscript = Some demo_mp_ass_subscript\<rparr>,
           tp_as_sequence = Some \<lparr>sq_item = Some demo_sq_item, sq_ass_item = Some demo_sq_ass_item\<rparr>\<rparr>
      | PyString_Type \<Rightarrow>
          \<lparr>tp_name = ''str'',
           tp_as_mapping = Some \<lparr>mp_subscript = Some demo_mp_subscript, mp_ass_subscript = None\<rparr>,
           tp_as_sequence = Some \<lparr>sq_item = Some demo_sq_item, sq_ass_item = None\<rparr>\<rparr>
      | Type_at n \<Rightarrow>
          if n = 1 then
            \<lparr>tp_name = ''xrange'', tp_as_mapping = None,
             tp_as_sequence = Some \<lparr>sq_item = Some demo_sq_item, sq_ass_item = None\<rparr>\<rparr>
          else if n = 2 then
            \<lparr>tp_name = ''deque'', tp_as_mapping = None,
             tp_as_sequence = Some \<lparr>sq_item = Some demo_sq_item, sq_ass_item = Some demo_sq_ass_item\<rparr>\<rparr>
          else if n = 3 then
            \<lparr>tp_name = ''set'', tp_as_mapping = None,
             tp_as_sequence = Some \<lparr>sq_item = None, sq_ass_item = None\<rparr>\<rparr>
          else if n = 4 then
            \<lparr>tp_name = ''dict'',
             tp_as_mapping =
               Some \<lparr>mp_subscript = Some demo_mp_subscript, mp_ass_subscript = Some demo_mp_ass_subscript\<rparr>,
             tp_as_sequence = None\<rparr>
          else
            \<lparr>tp_name = ''int'', tp_as_mapping = None, tp_as_sequence = None\<rparr>)"

text \<open>
  The converter of the sample runtime follows the interpreter's documentation of
  \<open>PyNumber_AsSsize_t\<close>: the value when it fits \<open>Py_ssize_t\<close>; otherwise -1, with an
  error of the type that was passed left pending.
\<close>

definition demo_AsSsize_t :: "addr \<Rightarrow> exception_type \<Rightarrow> pystate \<Rightarrow> Py_ssize_t \<times> pystate" where
  "demo_AsSsize_t key exc s =
     (if - (2 ^ 63) \<le> demo_int_value key \<and> demo_int_value key < 2 ^ 63 then
        (word_of_int (demo_int_value key), s)
      else (- 1, PyErr_Format exc ''cannot fit int into an index-sized integer'' s))"

definition demo_SEQUENCE_SETITEM :: "addr \<Rightarrow> Py_ssize_t \<Rightarrow> addr \<Rightarrow> pystate \<Rightarrow> unit outcome \<times> pystate" where
  "demo_SEQUENCE_SETITEM target i v s =
     throw_if_minus_one
       (demo_sq_ass_item target (if i <s 0 then i + ob_size s target else i) v s)"

definition demo_DelItem :: "addr \<Rightarrow> addr \<Rightarrow> pystate \<Rightarrow> c_int \<times> pystate" where
  "demo_DelItem target key s =
     (if demo_Py_TYPE target = Type_at 4 then (0, s)
      else (- 1, PyErr_Format PyExc_TypeError ''object does not support item deletion'' s))"

definition demo_rt :: runtime where
  "demo_rt =
     \<lparr>Py_TYPE = demo_Py_TYPE,
      typeobjects = demo_typeobjects,
      PyIndex_Check = (\<lambda>obj. demo_Py_TYPE obj = Type_at 0),
      PySequence_GetItem = demo_sq_item,
      PyNumber_AsSsize_t = demo_AsSsize_t,
      PyObject_DelItem = demo_DelItem,
      CONVERT_TO_INDEX = (\<lambda>key s. (Returned (word_of_int (demo_int_value key)), s)),
      SEQUENCE_SETITEM = demo_SEQUENCE_SETITEM,
      BUILTIN_CHR = (\<lambda>c s. (Some (1000 + unat c), s)),
      PYTHON_VERSION = 272\<rparr>"

definition demo_state :: pystate where
  "demo_state =
     \<lparr>curexc = None,
      ob_refcnt = (\<lambda>_. 1),
      ob_size = (\<lambda>obj. if obj = 1 \<or> obj = 5 then 3 else if obj = 3 then 1 else 0),
      ob_item = (\<lambda>obj. if obj = 1 \<or> obj = 5 then [10, 20, 30] else []),
      ob_sval = (\<lambda>obj. if obj = 3 then [120] else [])\<rparr>"

section \<open>Facts about the arithmetic of \<open>Py_ssize_t\<close>\<close>

lemma sint_lower: "- (2 ^ 63) \<le> sint (x :: Py_ssize_t)"
  using sint_ge [of x] by simp

lemma sint_upper: "sint (x :: Py_ssize_t) < 2 ^ 63"
  using sint_lt [of x] by simp

lemma sint_PY_SSIZE_T_MIN: "sint PY_SSIZE_T_MIN = - (2 ^ 63)"
  by (simp add: PY_SSIZE_T_MIN_def)

lemma sint_eq_min_iff: "sint (x :: Py_ssize_t) = - (2 ^ 63) \<longleftrightarrow> x = PY_SSIZE_T_MIN"
proof
  assume "sint x = - (2 ^ 63)"
  then have "sint x = sint PY_SSIZE_T_MIN" by (simp add: sint_PY_SSIZE_T_MIN)
  then show "x = PY_SSIZE_T_MIN" by (rule signed_word_eqI)
next
  assume "x = PY_SSIZE_T_MIN"
  then show "sint x = - (2 ^ 63)" by (simp add: sint_PY_SSIZE_T_MIN)
qed

lemma sint_uminus_nowrap:
  fixes x :: Py_ssize_t
  assumes "x \<noteq> PY_SSIZE_T_MIN"
  shows "sint (- x) = - sint x"
proof -
  have "sint x \<noteq> - (2 ^ 63)" using assms sint_eq_min_iff [of x] by blast
  with sint_lower [of x] sint_upper [of x]
  have "- (2 ^ 63) \<le> - sint x" "- sint x < 2 ^ 63" by simp_all
  then have "signed_take_bit 63 (- sint x) = - sint x"
    by (simp add: signed_take_bit_int_eq_self)
  then show ?thesis by (simp add: sint_word_minus)
qed

lemma sint_uminus_min: "- PY_SSIZE_T_MIN = PY_SSIZE_T_MIN"
  by (simp add: PY_SSIZE_T_MIN_def)

lemma sint_plus_nowrap:
  fixes a b :: Py_ssize_t
  assumes "- (2 ^ 63) \<le> sint a + sint b" "sint a + sint b < 2 ^ 63"
  shows "sint (a + b) = sint a + sint b"
proof -
  have "signed_take_bit 63 (sint a + sint b) = sint a + sint b"
    using assms by (simp add: signed_take_bit_int_eq_self)
  then show ?thesis by (simp add: sint_word_add)
qed

lemma normalize_subscript_None_iff:
  assumes "0 \<le> sint seq_size" "int_subscript \<noteq> PY_SSIZE_T_MIN"
  shows "normalize_subscript int_subscript seq_size = None \<longleftrightarrow>
         sint int_subscript < - sint seq_size \<or> sint seq_size \<le> sint int_subscript"
  using assms
  by (auto simp: normalize_subscript_def word_sless_alt word_sle_eq sint_uminus_nowrap)

lemma normalize_subscript_Some:
  assumes "0 \<le> sint seq_size" "int_subscript \<noteq> PY_SSIZE_T_MIN"
    and "normalize_subscript int_subscript seq_size = Some i"
  shows "sint i = (if 0 \<le> sint int_subscript then sint int_subscript
                   else sint int_subscript + sint seq_size)"
proof (cases "int_subscript <s 0")
  case True
  then have neg: "sint int_subscript < 0" by (simp add: word_sless_alt)
  from assms(3) True have i: "i = int_subscript + seq_size"
    by (simp add: normalize_subscript_def split: if_splits)
  have "sint (int_subscript + seq_size) = sint int_subscript + sint seq_size"
    using neg assms(1) sint_lower [of int_subscript] sint_upper [of seq_size]
    by (intro sint_plus_nowrap) simp_all
  with neg i show ?thesis by simp
next
  case False
  then have "0 \<le> sint int_subscript" by (simp add: word_sless_alt)
  moreover from assms(3) False have "i = int_subscript"
    by (simp add: normalize_subscript_def split: if_splits)
  ultimately show ?thesis by simp
qed

lemma normalize_subscript_min:
  "normalize_subscript PY_SSIZE_T_MIN seq_size = Some (PY_SSIZE_T_MIN + seq_size)"
proof -
  have "\<not> seq_size <s PY_SSIZE_T_MIN"
    using sint_lower [of seq_size] by (simp add: word_sless_alt sint_PY_SSIZE_T_MIN)
  moreover have "PY_SSIZE_T_MIN <s 0"
    by (simp add: word_sless_alt sint_PY_SSIZE_T_MIN)
  ultimately show ?thesis
    by (simp add: normalize_subscript_def sint_uminus_min)
qed

section \<open>Evaluation on the sample runtime\<close>

lemmas demo_defs = demo_rt_def demo_state_def demo_typeobjects_def demo_Py_TYPE_def
  demo_int_value_def demo_mp_subscript_def demo_mp_ass_subscript_def demo_sq_item_def
  demo_sq_ass_item_def demo_AsSsize_t_def demo_SEQUENCE_SETITEM_def demo_DelItem_def

lemmas helper_defs = type_of_def slot_of_def PyErr_Format_def throw_PythonException_def
  THROW_IF_ERROR_OCCURED_def throw_if_null_def throw_if_minus_one_def and_then_def
  PyList_CheckExact_def PyString_CheckExact_def array_read_def INCREASE_REFCOUNT_def

lemma PyErr_Format_then_throw:
  "throw_PythonException (PyErr_Format exc msg s) = (Thrown (Some (exc, msg)), s\<lparr>curexc := None\<rparr>)"
  by (simp add: throw_PythonException_def PyErr_Format_def)

section \<open>Failure of a read on an object that cannot be subscripted\<close>

text \<open>
  When the type of the source has neither the \<open>mp_subscript\<close> slot nor a sequence
  table, both read helpers end in \<open>return PyErr_Format( ... )\<close> (lines 111 and 158).
  \<open>PyErr_Format\<close> returns the null pointer, so the helper returns the null pointer to
  its caller with the \<open>TypeError\<close> left pending; the \<open>throw\<close> on the following line
  is never reached.
\<close>

lemma Get_neither_general:
  assumes "slot_of (tp_as_mapping (type_of rt source)) mp_subscript = None"
    and "tp_as_sequence (type_of rt source) = None"
  shows "LOOKUP_SUBSCRIPT_CONST rt source const_subscript int_subscript s =
           (Returned None,
            s\<lparr>curexc := Some (PyExc_TypeError, fmt_unsubscriptable (tp_name (type_of rt source)))\<rparr>)"
    and "LOOKUP_SUBSCRIPT rt source subscript s =
           (Returned None,
            s\<lparr>curexc := Some (PyExc_TypeError, fmt_unsubscriptable (tp_name (type_of rt source)))\<rparr>)"
  using assms
  by (simp_all add: LOOKUP_SUBSCRIPT_CONST_def LOOKUP_SUBSCRIPT_def Let_def PyErr_Format_def)

text \<open>
  C1. The claim is that a failed subscript operation always raises and never returns to
  the caller, in particular that a read on a source with neither mapping nor sequence
  capability raises rather than returning normally. On the sample runtime object 2 is
  an \<open>int\<close>, which has neither capability. Both entry points of the read return
  normally there, handing back the null pointer and leaving the \<open>TypeError\<close> pending:
  nothing is thrown.
\<close>

theorem Get_neither_returns_null:
  "LOOKUP_SUBSCRIPT_CONST demo_rt 2 8 (- 1) demo_state =
     (Returned None, demo_state\<lparr>curexc := Some (PyExc_TypeError, fmt_unsubscriptable ''int'')\<rparr>) \<and>
   LOOKUP_SUBSCRIPT demo_rt 2 8 demo_state =
     (Returned None, demo_state\<lparr>curexc := Some (PyExc_TypeError, fmt_unsubscriptable ''int'')\<rparr>)"
  by (simp add: LOOKUP_SUBSCRIPT_CONST_def LOOKUP_SUBSCRIPT_def demo_defs helper_defs)

section \<open>The constant-index read outside the two fast paths\<close>

text \<open>
  Outside the two fast paths the constant-index read has the cases of the generic read.
  When the type of the source has the \<open>mp_subscript\<close> slot, the slot is called with the
  original key object and \<open>int_subscript\<close> is not used. When it has no such slot and has
  a sequence table, \<open>PySequence_GetItem\<close> is called with \<open>int_subscript\<close> (line 107).
\<close>

lemma LOOKUP_SUBSCRIPT_CONST_generic:
  assumes "Py_TYPE rt source \<noteq> PyList_Type" and "Py_TYPE rt source \<noteq> PyString_Type"
  shows "(\<forall>f. slot_of (tp_as_mapping (type_of rt source)) mp_subscript = Some f \<longrightarrow>
            LOOKUP_SUBSCRIPT_CONST rt source const_subscript int_subscript s =
              throw_if_null (f source const_subscript s)) \<and>
         (slot_of (tp_as_mapping (type_of rt source)) mp_subscript = None \<and>
          tp_as_sequence (type_of rt source) \<noteq> None \<longrightarrow>
            LOOKUP_SUBSCRIPT_CONST rt source const_subscript int_subscript s =
              throw_if_null (PySequence_GetItem rt source int_subscript s))"
  using assms
  by (simp add: LOOKUP_SUBSCRIPT_CONST_def PyList_CheckExact_def PyString_CheckExact_def Let_def)



section \<open>The list fast path\<close>

text \<open>
  For a list whose \<open>ob_size\<close> is the length of its item array, and every index other
  than the least value of \<open>Py_ssize_t\<close>, the fast path does what Python's indexing does:
  with \<open>n\<close> the length and \<open>i\<close> the index, it returns the item at \<open>i\<close> (at \<open>i + n\<close> when
  \<open>i\<close> is negative) with its reference count incremented when \<open>-n \<le> i < n\<close>, and throws
  \<open>IndexError\<close> "list index out of range" otherwise.
\<close>

lemma LOOKUP_SUBSCRIPT_CONST_list:
  assumes mp: "slot_of (tp_as_mapping (type_of rt source)) mp_subscript = Some f"
    and lst: "Py_TYPE rt source = PyList_Type"
    and wf: "sint (ob_size s source) = int (length (ob_item s source))"
    and nm: "int_subscript \<noteq> PY_SSIZE_T_MIN"
  shows "LOOKUP_SUBSCRIPT_CONST rt source const_subscript int_subscript s =
     (let n = int (length (ob_item s source)); i = sint int_subscript in
      if - n \<le> i \<and> i < n then
        (let item = ob_item s source ! nat (if 0 \<le> i then i else i + n) in
         (Returned (Some item), s\<lparr>ob_refcnt := (ob_refcnt s)(item := ob_refcnt s item + 1)\<rparr>))
      else (Thrown (Some (PyExc_IndexError, ''list index out of range'')), s\<lparr>curexc := None\<rparr>))"
proof -
  let ?n = "int (length (ob_item s source))"
  let ?i = "sint int_subscript"
  have size: "0 \<le> sint (ob_size s source)" using wf by simp
  show ?thesis
  proof (cases "normalize_subscript int_subscript (ob_size s source)")
    case None
    then have "?i < - ?n \<or> ?n \<le> ?i"
      using normalize_subscript_None_iff [OF size nm] wf by simp
    then have "\<not> (- ?n \<le> ?i \<and> ?i < ?n)" by auto
    with None mp lst show ?thesis
      by (simp add: LOOKUP_SUBSCRIPT_CONST_def PyList_CheckExact_def
          throw_PythonException_def PyErr_Format_def Let_def)
  next
    case (Some j)
    then have "\<not> (?i < - ?n \<or> ?n \<le> ?i)"
      using normalize_subscript_None_iff [OF size nm] wf by simp
    then have inr: "- ?n \<le> ?i \<and> ?i < ?n" by auto
    have j: "sint j = (if 0 \<le> ?i then ?i else ?i + ?n)"
      using normalize_subscript_Some [OF size nm Some] wf by simp
    with inr have "0 \<le> sint j \<and> sint j < ?n" by auto
    then have "array_read (ob_item s source) j = Some (ob_item s source ! nat (sint j))"
      by (simp add: array_read_def)
    with Some mp lst inr j show ?thesis
      by (simp add: LOOKUP_SUBSCRIPT_CONST_def PyList_CheckExact_def INCREASE_REFCOUNT_def Let_def)
  qed
qed

lemma LOOKUP_SUBSCRIPT_CONST_list_min:
  assumes mp: "slot_of (tp_as_mapping (type_of rt source)) mp_subscript = Some f"
    and lst: "Py_TYPE rt source = PyList_Type"
    and wf: "sint (ob_size s source) = int (length (ob_item s source))"
  shows "LOOKUP_SUBSCRIPT_CONST rt source const_subscript PY_SSIZE_T_MIN s = (Undefined, s)"
proof -
  have "sint (PY_SSIZE_T_MIN + ob_size s source) = sint PY_SSIZE_T_MIN + sint (ob_size s source)"
    using wf sint_upper [of "ob_size s source"]
    by (intro sint_plus_nowrap) (simp_all add: sint_PY_SSIZE_T_MIN)
  then have "sint (PY_SSIZE_T_MIN + ob_size s source) < 0"
    using sint_upper [of "ob_size s source"] by (simp add: sint_PY_SSIZE_T_MIN)
  then have "array_read (ob_item s source) (PY_SSIZE_T_MIN + ob_size s source) = None"
    by (simp add: array_read_def)
  with mp lst show ?thesis
    by (simp add: LOOKUP_SUBSCRIPT_CONST_def PyList_CheckExact_def normalize_subscript_min Let_def)
qed

text \<open>
  C3. The claim is that the constant-index read of a list of length \<open>N\<close> returns the
  item at \<open>i\<close> (at \<open>i + N\<close> for negative \<open>i\<close>) when \<open>-N \<le> i < N\<close>, and raises
  \<open>IndexError\<close> "list index out of range" for every other \<open>i\<close>. By
  \<open>LOOKUP_SUBSCRIPT_CONST_list\<close> the code does so for every index but one. At the least
  value of \<open>Py_ssize_t\<close> the negation in \<open>-int_subscript > list_size\<close> (line 52)
  overflows and gives the same negative value again, the test does not fire, and the
  item array is read at the negative position \<open>int_subscript + list_size\<close>. On the list
  \<open>[10, 20, 30]\<close> of the sample runtime (object 1) no \<open>IndexError\<close> is raised at this
  index, which is below \<open>-3\<close>: the read is outside the array.
\<close>

theorem list_read_at_least_index:
  "Py_TYPE demo_rt 1 = PyList_Type \<and>
   sint (ob_size demo_state 1) = int (length (ob_item demo_state 1)) \<and>
   ob_item demo_state 1 = [10, 20, 30] \<and>
   sint PY_SSIZE_T_MIN < - int (length (ob_item demo_state 1)) \<and>
   LOOKUP_SUBSCRIPT_CONST demo_rt 1 2 PY_SSIZE_T_MIN demo_state = (Undefined, demo_state)"
  by (simp add: LOOKUP_SUBSCRIPT_CONST_def normalize_subscript_min demo_defs helper_defs)
     (simp add: PY_SSIZE_T_MIN_def)

section \<open>The generic read\<close>

text \<open>
  The generic read tries the capabilities of the source's type in a fixed order. If the
  type has the \<open>mp_subscript\<close> slot, the slot is called with the unmodified key, whether
  or not the key is index-like. Otherwise, if the type has a sequence table, the
  sequence path is taken: an index-like key is converted and \<open>PySequence_GetItem\<close> is
  called; any other key raises a \<open>TypeError\<close> when the table has \<open>sq_item\<close>. In every
  remaining case the \<open>TypeError\<close> "'<source-type>' object is unsubscriptable" is set and
  the null pointer is returned.
\<close>

lemma LOOKUP_SUBSCRIPT_dispatch:
  "(\<forall>f. slot_of (tp_as_mapping (type_of rt source)) mp_subscript = Some f \<longrightarrow>
      LOOKUP_SUBSCRIPT rt source subscript s = throw_if_null (f source subscript s)) \<and>
   (slot_of (tp_as_mapping (type_of rt source)) mp_subscript = None \<and>
    tp_as_sequence (type_of rt source) \<noteq> None \<longrightarrow>
      LOOKUP_SUBSCRIPT rt source subscript s =
        (if PyIndex_Check rt subscript then
           and_then (CONVERT_TO_INDEX rt subscript s)
             (\<lambda>i s'. throw_if_null (PySequence_GetItem rt source i s'))
         else if slot_of (tp_as_sequence (type_of rt source)) sq_item \<noteq> None then
           (Thrown (Some (PyExc_TypeError, fmt_index_must_be_integer (tp_name (type_of rt subscript)))),
            s\<lparr>curexc := None\<rparr>)
         else
           (Returned None,
            s\<lparr>curexc := Some (PyExc_TypeError, fmt_unsubscriptable (tp_name (type_of rt source)))\<rparr>))) \<and>
   (slot_of (tp_as_mapping (type_of rt source)) mp_subscript = None \<and>
    tp_as_sequence (type_of rt source) = None \<longrightarrow>
      LOOKUP_SUBSCRIPT rt source subscript s =
        (Returned None,
         s\<lparr>curexc := Some (PyExc_TypeError, fmt_unsubscriptable (tp_name (type_of rt source)))\<rparr>))"
  by (simp add: LOOKUP_SUBSCRIPT_def Let_def PyErr_Format_then_throw)
     (simp add: PyErr_Format_def)

text \<open>
  On the sample runtime: the \<open>dict\<close> (object 9) is read through its slot, the \<open>deque\<close>
  (object 5) by position, and the read of the \<open>int\<close> (object 2) returns the null pointer.
\<close>

lemma LOOKUP_SUBSCRIPT_dispatch_examples:
  "slot_of (tp_as_mapping (type_of demo_rt 9)) mp_subscript = Some demo_mp_subscript \<and>
   LOOKUP_SUBSCRIPT demo_rt 9 3 demo_state = (Returned (Some 20), demo_state) \<and>
   slot_of (tp_as_mapping (type_of demo_rt 5)) mp_subscript = None \<and>
   tp_as_sequence (type_of demo_rt 5) \<noteq> None \<and>
   LOOKUP_SUBSCRIPT demo_rt 5 2 demo_state = (Returned (Some 20), demo_state) \<and>
   slot_of (tp_as_mapping (type_of demo_rt 2)) mp_subscript = None \<and>
   tp_as_sequence (type_of demo_rt 2) = None \<and>
   LOOKUP_SUBSCRIPT demo_rt 2 3 demo_state =
     (Returned None, demo_state\<lparr>curexc := Some (PyExc_TypeError, fmt_unsubscriptable ''int'')\<rparr>)"
proof -
  have m: "slot_of (tp_as_mapping (type_of demo_rt 9)) mp_subscript = Some demo_mp_subscript"
    and q: "slot_of (tp_as_mapping (type_of demo_rt 5)) mp_subscript = None"
           "tp_as_sequence (type_of demo_rt 5) \<noteq> None"
    and n: "slot_of (tp_as_mapping (type_of demo_rt 2)) mp_subscript = None"
           "tp_as_sequence (type_of demo_rt 2) = None"
    by (simp_all add: demo_defs helper_defs)
  from LOOKUP_SUBSCRIPT_dispatch [of demo_rt 9 3 demo_state] m
  have "LOOKUP_SUBSCRIPT demo_rt 9 3 demo_state = throw_if_null (demo_mp_subscript 9 3 demo_state)"
    by simp
  then have 1: "LOOKUP_SUBSCRIPT demo_rt 9 3 demo_state = (Returned (Some 20), demo_state)"
    by (simp add: demo_defs helper_defs)
  from LOOKUP_SUBSCRIPT_dispatch [of demo_rt 5 2 demo_state] q
  have "LOOKUP_SUBSCRIPT demo_rt 5 2 demo_state =
          (if PyIndex_Check demo_rt 2 then
             and_then (CONVERT_TO_INDEX demo_rt 2 demo_state)
               (\<lambda>i s'. throw_if_null (PySequence_GetItem demo_rt 5 i s'))
           else if slot_of (tp_as_sequence (type_of demo_rt 5)) sq_item \<noteq> None then
             (Thrown (Some (PyExc_TypeError, fmt_index_must_be_integer (tp_name (type_of demo_rt 2)))),
              demo_state\<lparr>curexc := None\<rparr>)
           else
             (Returned None,
              demo_state\<lparr>curexc := Some (PyExc_TypeError, fmt_unsubscriptable (tp_name (type_of demo_rt 5)))\<rparr>))"
    by simp
  then have 2: "LOOKUP_SUBSCRIPT demo_rt 5 2 demo_state = (Returned (Some 20), demo_state)"
    by (simp add: demo_defs helper_defs)
  from LOOKUP_SUBSCRIPT_dispatch [of demo_rt 2 3 demo_state] n
  have "LOOKUP_SUBSCRIPT demo_rt 2 3 demo_state =
          (Returned None,
           demo_state\<lparr>curexc := Some (PyExc_TypeError, fmt_unsubscriptable (tp_name (type_of demo_rt 2)))\<rparr>)"
    by simp
  then have 3: "LOOKUP_SUBSCRIPT demo_rt 2 3 demo_state =
     (Returned None, demo_state\<lparr>curexc := Some (PyExc_TypeError, fmt_unsubscriptable ''int'')\<rparr>)"
    by (simp add: demo_defs helper_defs)
  from m q n 1 2 3 show ?thesis by simp
qed

text \<open>
  C4. The claim is that the generic read calls get-by-key with the unmodified key when
  the source is mapping-capable, takes the sequence path when it is sequence-capable
  instead, and otherwise fails with the \<open>TypeError\<close>
  "'<source-type>' object is unsubscriptable". The order and the first two cases are
  those of \<open>LOOKUP_SUBSCRIPT_dispatch\<close>. In the last case the helper sets that
  \<open>TypeError\<close> and then returns the null pointer (line 158) where the other failures
  of the helper throw: on the \<open>int\<close> of the sample runtime (object 2), with the string
  key (object 3), the outcome is a return and the error is still pending afterwards.
\<close>

theorem generic_read_neither_returns_null:
  "slot_of (tp_as_mapping (type_of demo_rt 2)) mp_subscript = None \<and>
   tp_as_sequence (type_of demo_rt 2) = None \<and>
   fst (LOOKUP_SUBSCRIPT demo_rt 2 3 demo_state) = Returned None \<and>
   fst (LOOKUP_SUBSCRIPT demo_rt 2 3 demo_state) \<noteq>
     Thrown (Some (PyExc_TypeError, fmt_unsubscriptable ''int'')) \<and>
   curexc (snd (LOOKUP_SUBSCRIPT demo_rt 2 3 demo_state)) =
     Some (PyExc_TypeError, fmt_unsubscriptable ''int'')"
  by (simp add: LOOKUP_SUBSCRIPT_def demo_defs helper_defs)

section \<open>A key that is not index-like, on a target with a sequence table only\<close>

text \<open>
  C5, as stated, says that for every sequence-capable target that is not
  mapping-capable, and every key that is not index-like, the read and the write fail
  with the \<open>TypeError\<close> "sequence index must be integer, not '<key-type>'". Object 4 of
  the sample runtime is an \<open>xrange\<close>: its type has a sequence table, which is what the
  helpers test before they take the sequence path, and no mapping table; the table has
  \<open>sq_item\<close> and no \<open>sq_ass_item\<close>. Writing to it with the string key (object 3) raises
  "'xrange' object does not support item assignment" instead (lines 213-222).
\<close>

theorem SET_SUBSCRIPT_no_sq_ass_item:
  "slot_of (tp_as_mapping (type_of demo_rt 4)) mp_ass_subscript = None \<and>
   tp_as_sequence (type_of demo_rt 4) \<noteq> None \<and>
   \<not> PyIndex_Check demo_rt 3 \<and>
   tp_name (type_of demo_rt 3) = ''str'' \<and>
   fst (SET_SUBSCRIPT demo_rt 10 4 3 demo_state) =
     Thrown (Some (PyExc_TypeError,
       [CHR 0x27] @ ''xrange'' @ [CHR 0x27] @ '' object does not support item assignment'')) \<and>
   fst (SET_SUBSCRIPT demo_rt 10 4 3 demo_state) \<noteq>
     Thrown (Some (PyExc_TypeError,
       ''sequence index must be integer, not '' @ [CHR 0x27] @ ''str'' @ [CHR 0x27]))"
  by (simp add: SET_SUBSCRIPT_def demo_defs helper_defs)
     (simp add: fmt_no_item_assignment_def fmt_index_must_be_integer_def squote_def)

text \<open>
  C5, as amended. For every target whose type has a sequence table and no mapping slot
  for the operation, and every key that is not index-like: the read raises the
  \<open>TypeError\<close> "sequence index must be integer, not '<key-type>'" when the table has the
  \<open>sq_item\<close> slot; the write raises the same error when the table has the
  \<open>sq_ass_item\<close> slot, and raises the \<open>TypeError\<close>
  "'<target-type>' object does not support item assignment" when it has not. The
  character \<open>CHR 0x27\<close> is the single quote of the two messages.
\<close>

theorem non_index_key_on_sequence:
  assumes "\<not> PyIndex_Check rt subscript"
    and "tp_as_sequence (type_of rt target) = Some sq"
  shows "(slot_of (tp_as_mapping (type_of rt target)) mp_subscript = None \<and> sq_item sq \<noteq> None \<longrightarrow>
            LOOKUP_SUBSCRIPT rt target subscript s =
              (Thrown (Some (PyExc_TypeError,
                 ''sequence index must be integer, not '' @
                 [CHR 0x27] @ tp_name (type_of rt subscript) @ [CHR 0x27])),
               s\<lparr>curexc := None\<rparr>)) \<and>
         (slot_of (tp_as_mapping (type_of rt target)) mp_ass_subscript = None \<and> sq_ass_item sq \<noteq> None \<longrightarrow>
            SET_SUBSCRIPT rt val target subscript s =
              (Thrown (Some (PyExc_TypeError,
                 ''sequence index must be integer, not '' @
                 [CHR 0x27] @ tp_name (type_of rt subscript) @ [CHR 0x27])),
               s\<lparr>curexc := None\<rparr>)) \<and>
         (slot_of (tp_as_mapping (type_of rt target)) mp_ass_subscript = None \<and> sq_ass_item sq = None \<longrightarrow>
            SET_SUBSCRIPT rt val target subscript s =
              (Thrown (Some (PyExc_TypeError,
                 [CHR 0x27] @ tp_name (type_of rt target) @ [CHR 0x27] @
                 '' object does not support item assignment'')),
               s\<lparr>curexc := None\<rparr>))"
  using assms
  by (simp add: LOOKUP_SUBSCRIPT_def SET_SUBSCRIPT_def Let_def PyErr_Format_then_throw slot_of_def
      fmt_index_must_be_integer_def fmt_no_item_assignment_def squote_def)

text \<open>
  C5, witness: the string key on the \<open>deque\<close> (both slots) for the read and the write,
  and on the \<open>xrange\<close> (no \<open>sq_ass_item\<close>) for the write.
\<close>

theorem non_index_key_on_sequence_witness:
  "\<not> PyIndex_Check demo_rt 3 \<and>
   tp_as_sequence (type_of demo_rt 5) = Some \<lparr>sq_item = Some demo_sq_item, sq_ass_item = Some demo_sq_ass_item\<rparr> \<and>
   slot_of (tp_as_mapping (type_of demo_rt 5)) mp_subscript = None \<and>
   slot_of (tp_as_mapping (type_of demo_rt 5)) mp_ass_subscript = None \<and>
   LOOKUP_SUBSCRIPT demo_rt 5 3 demo_state =
     (Thrown (Some (PyExc_TypeError,
        ''sequence index must be integer, not '' @ [CHR 0x27] @ ''str'' @ [CHR 0x27])),
      demo_state) \<and>
   SET_SUBSCRIPT demo_rt 10 5 3 demo_state =
     (Thrown (Some (PyExc_TypeError,
        ''sequence index must be integer, not '' @ [CHR 0x27] @ ''str'' @ [CHR 0x27])),
      demo_state) \<and>
   tp_as_sequence (type_of demo_rt 4) = Some \<lparr>sq_item = Some demo_sq_item, sq_ass_item = None\<rparr> \<and>
   slot_of (tp_as_mapping (type_of demo_rt 4)) mp_ass_subscript = None \<and>
   SET_SUBSCRIPT demo_rt 10 4 3 demo_state =
     (Thrown (Some (PyExc_TypeError,
        [CHR 0x27] @ ''xrange'' @ [CHR 0x27] @ '' object does not support item assignment'')),
      demo_state)"
proof -
  have k: "\<not> PyIndex_Check demo_rt 3"
    and d: "tp_as_sequence (type_of demo_rt 5) =
              Some \<lparr>sq_item = Some demo_sq_item, sq_ass_item = Some demo_sq_ass_item\<rparr>"
    and x: "tp_as_sequence (type_of demo_rt 4) = Some \<lparr>sq_item = Some demo_sq_item, sq_ass_item = None\<rparr>"
    and m: "slot_of (tp_as_mapping (type_of demo_rt 5)) mp_subscript = None"
           "slot_of (tp_as_mapping (type_of demo_rt 5)) mp_ass_subscript = None"
           "slot_of (tp_as_mapping (type_of demo_rt 4)) mp_ass_subscript = None"
    and names: "tp_name (type_of demo_rt 3) = ''str''" "tp_name (type_of demo_rt 4) = ''xrange''"
    and st: "demo_state\<lparr>curexc := None\<rparr> = demo_state"
    by (simp_all add: demo_defs helper_defs)
  from non_index_key_on_sequence [OF k d, of demo_state 10] m names st
  have "LOOKUP_SUBSCRIPT demo_rt 5 3 demo_state =
          (Thrown (Some (PyExc_TypeError,
             ''sequence index must be integer, not '' @ [CHR 0x27] @ ''str'' @ [CHR 0x27])),
           demo_state)"
       "SET_SUBSCRIPT demo_rt 10 5 3 demo_state =
          (Thrown (Some (PyExc_TypeError,
             ''sequence index must be integer, not '' @ [CHR 0x27] @ ''str'' @ [CHR 0x27])),
           demo_state)"
    by simp_all
  moreover from non_index_key_on_sequence [OF k x, of demo_state 10] m names st
  have "SET_SUBSCRIPT demo_rt 10 4 3 demo_state =
          (Thrown (Some (PyExc_TypeError,
             [CHR 0x27] @ ''xrange'' @ [CHR 0x27] @ '' object does not support item assignment'')),
           demo_state)"
    by simp
  ultimately show ?thesis using k d x m by simp
qed

section \<open>The write\<close>

text \<open>
  C6. For every target whose type has a sequence table and no \<open>mp_ass_subscript\<close> slot,
  and every index-like key, the write converts the key with \<open>PyNumber_AsSsize_t\<close>,
  naming \<open>IndexError\<close> as the error of an overflow. When the conversion fails (it
  returns -1 and leaves an error pending) the write raises that error, so an overflow
  raises \<open>IndexError\<close>; otherwise it calls \<open>SEQUENCE_SETITEM\<close> with the converted index
  and the value.
\<close>

theorem SET_SUBSCRIPT_sequence_index:
  assumes "slot_of (tp_as_mapping (type_of rt target)) mp_ass_subscript = None"
    and "tp_as_sequence (type_of rt target) \<noteq> None"
    and "PyIndex_Check rt subscript"
    and "PyNumber_AsSsize_t rt subscript PyExc_IndexError s = (key_value, s')"
  shows "SET_SUBSCRIPT rt val target subscript s =
           (if key_value = - 1 \<and> curexc s' \<noteq> None then (Thrown (curexc s'), s'\<lparr>curexc := None\<rparr>)
            else SEQUENCE_SETITEM rt target key_value val s') \<and>
         (\<forall>msg. key_value = - 1 \<and> curexc s' = Some (PyExc_IndexError, msg) \<longrightarrow>
            SET_SUBSCRIPT rt val target subscript s =
              (Thrown (Some (PyExc_IndexError, msg)), s'\<lparr>curexc := None\<rparr>))"
  using assms
  by (simp add: SET_SUBSCRIPT_def Let_def THROW_IF_ERROR_OCCURED_def throw_PythonException_def
      and_then_def)

text \<open>
  C6, witness: on the \<open>deque\<close> (object 5), the key \<open>2^63\<close> (object 7) overflows and the
  write raises \<open>IndexError\<close>; the key 1 (object 2) stores the value at position 1.
\<close>

theorem SET_SUBSCRIPT_sequence_index_witness:
  "slot_of (tp_as_mapping (type_of demo_rt 5)) mp_ass_subscript = None \<and>
   tp_as_sequence (type_of demo_rt 5) \<noteq> None \<and>
   PyIndex_Check demo_rt 7 \<and>
   PyNumber_AsSsize_t demo_rt 7 PyExc_IndexError demo_state =
     (- 1, demo_state\<lparr>curexc := Some (PyExc_IndexError, ''cannot fit int into an index-sized integer'')\<rparr>) \<and>
   SET_SUBSCRIPT demo_rt 10 5 7 demo_state =
     (Thrown (Some (PyExc_IndexError, ''cannot fit int into an index-sized integer'')), demo_state) \<and>
   PyIndex_Check demo_rt 2 \<and>
   PyNumber_AsSsize_t demo_rt 2 PyExc_IndexError demo_state = (1, demo_state) \<and>
   SET_SUBSCRIPT demo_rt 10 5 2 demo_state = SEQUENCE_SETITEM demo_rt 5 1 10 demo_state \<and>
   fst (SET_SUBSCRIPT demo_rt 10 5 2 demo_state) = Returned () \<and>
   ob_item (snd (SET_SUBSCRIPT demo_rt 10 5 2 demo_state)) 5 = [10, 10, 30]"
proof -
  have m: "slot_of (tp_as_mapping (type_of demo_rt 5)) mp_ass_subscript = None"
    and q: "tp_as_sequence (type_of demo_rt 5) \<noteq> None"
    and k7: "PyIndex_Check demo_rt 7" and k2: "PyIndex_Check demo_rt 2"
    and c7: "PyNumber_AsSsize_t demo_rt 7 PyExc_IndexError demo_state =
               (- 1, demo_state\<lparr>curexc := Some (PyExc_IndexError, ''cannot fit int into an index-sized integer'')\<rparr>)"
    and c2: "PyNumber_AsSsize_t demo_rt 2 PyExc_IndexError demo_state = (1, demo_state)"
    by (simp_all add: demo_defs helper_defs)
  from SET_SUBSCRIPT_sequence_index [OF m q k7 c7, of 10]
  have 1: "SET_SUBSCRIPT demo_rt 10 5 7 demo_state =
     (Thrown (Some (PyExc_IndexError, ''cannot fit int into an index-sized integer'')), demo_state)"
    by (simp add: demo_state_def)
  from SET_SUBSCRIPT_sequence_index [OF m q k2 c2, of 10]
  have 2: "SET_SUBSCRIPT demo_rt 10 5 2 demo_state = SEQUENCE_SETITEM demo_rt 5 1 10 demo_state"
    by simp
  have 3: "fst (SEQUENCE_SETITEM demo_rt 5 1 10 demo_state) = Returned ()"
          "ob_item (snd (SEQUENCE_SETITEM demo_rt 5 1 10 demo_state)) 5 = [10, 10, 30]"
    by (simp_all add: demo_defs helper_defs word_sless_alt)
  from m q k7 k2 c7 c2 1 2 3 show ?thesis by simp
qed

text \<open>
  C7, as stated, says that for every target with neither mapping nor sequence
  capability, and every key and value, the write fails with the \<open>TypeError\<close>
  "'<target-type>' object does not support item assignment". Object 6 of the sample
  runtime is a \<open>set\<close>: its type has no mapping table, and its sequence table has neither
  \<open>sq_item\<close> nor \<open>sq_ass_item\<close>, so it can neither get nor set a value by position. It
  has a sequence table all the same, so the write takes the sequence path, and an
  index-like key is converted before anything else is tested (lines 191-200): with the
  key \<open>2^63\<close> (object 7) the conversion overflows and the write raises \<open>IndexError\<close>.
\<close>

theorem SET_SUBSCRIPT_converts_first:
  "slot_of (tp_as_mapping (type_of demo_rt 6)) mp_ass_subscript = None \<and>
   slot_of (tp_as_sequence (type_of demo_rt 6)) sq_item = None \<and>
   slot_of (tp_as_sequence (type_of demo_rt 6)) sq_ass_item = None \<and>
   tp_name (type_of demo_rt 6) = ''set'' \<and>
   PyIndex_Check demo_rt 7 \<and>
   fst (SET_SUBSCRIPT demo_rt 10 6 7 demo_state) =
     Thrown (Some (PyExc_IndexError, ''cannot fit int into an index-sized integer'')) \<and>
   fst (SET_SUBSCRIPT demo_rt 10 6 7 demo_state) \<noteq>
     Thrown (Some (PyExc_TypeError,
       [CHR 0x27] @ ''set'' @ [CHR 0x27] @ '' object does not support item assignment''))"
  by (simp add: SET_SUBSCRIPT_def demo_defs helper_defs)

text \<open>
  C7, as amended. For every target whose type has neither the \<open>mp_ass_subscript\<close> slot
  nor the \<open>sq_ass_item\<close> slot, and every key and value, the write raises the
  \<open>TypeError\<close> "'<target-type>' object does not support item assignment", naming the
  target's type, when the type has no sequence table at all or the key is not
  index-like. (With a sequence table and an index-like key the key is converted first
  and the write is left to \<open>SEQUENCE_SETITEM\<close>, see C6.) The character \<open>CHR 0x27\<close> is the
  single quote of the message.
\<close>

theorem SET_SUBSCRIPT_neither:
  assumes "slot_of (tp_as_mapping (type_of rt target)) mp_ass_subscript = None"
    and "slot_of (tp_as_sequence (type_of rt target)) sq_ass_item = None"
    and "tp_as_sequence (type_of rt target) = None \<or> \<not> PyIndex_Check rt subscript"
  shows "SET_SUBSCRIPT rt val target subscript s =
           (Thrown (Some (PyExc_TypeError,
              [CHR 0x27] @ tp_name (type_of rt target) @ [CHR 0x27] @
              '' object does not support item assignment'')),
            s\<lparr>curexc := None\<rparr>)"
  using assms
  by (auto simp add: SET_SUBSCRIPT_def Let_def PyErr_Format_then_throw
      fmt_no_item_assignment_def squote_def)

text \<open>
  C7, witness: writing to the \<open>int\<close> (object 2, no table at all) with an index-like key,
  and to the \<open>set\<close> (object 6, a sequence table without the slot) with the string key.
\<close>

theorem SET_SUBSCRIPT_neither_witness:
  "slot_of (tp_as_mapping (type_of demo_rt 2)) mp_ass_subscript = None \<and>
   slot_of (tp_as_sequence (type_of demo_rt 2)) sq_ass_item = None \<and>
   tp_as_sequence (type_of demo_rt 2) = None \<and>
   PyIndex_Check demo_rt 8 \<and>
   SET_SUBSCRIPT demo_rt 10 2 8 demo_state =
     (Thrown (Some (PyExc_TypeError,
        [CHR 0x27] @ ''int'' @ [CHR 0x27] @ '' object does not support item assignment'')),
      demo_state) \<and>
   slot_of (tp_as_mapping (type_of demo_rt 6)) mp_ass_subscript = None \<and>
   slot_of (tp_as_sequence (type_of demo_rt 6)) sq_ass_item = None \<and>
   tp_as_sequence (type_of demo_rt 6) \<noteq> None \<and>
   \<not> PyIndex_Check demo_rt 3 \<and>
   SET_SUBSCRIPT demo_rt 10 6 3 demo_state =
     (Thrown (Some (PyExc_TypeError,
        [CHR 0x27] @ ''set'' @ [CHR 0x27] @ '' object does not support item assignment'')),
      demo_state)"
proof -
  have m: "slot_of (tp_as_mapping (type_of demo_rt 2)) mp_ass_subscript = None"
    and q: "slot_of (tp_as_sequence (type_of demo_rt 2)) sq_ass_item = None"
    and t: "tp_as_sequence (type_of demo_rt 2) = None"
    and n: "tp_name (type_of demo_rt 2) = ''int''"
    and k8: "PyIndex_Check demo_rt 8"
    and m6: "slot_of (tp_as_mapping (type_of demo_rt 6)) mp_ass_subscript = None"
    and q6: "slot_of (tp_as_sequence (type_of demo_rt 6)) sq_ass_item = None"
    and t6: "tp_as_sequence (type_of demo_rt 6) \<noteq> None"
    and n6: "tp_name (type_of demo_rt 6) = ''set''"
    and k3: "\<not> PyIndex_Check demo_rt 3"
    and st: "demo_state\<lparr>curexc := None\<rparr> = demo_state"
    by (simp_all add: demo_defs helper_defs)
  from t have d2: "tp_as_sequence (type_of demo_rt 2) = None \<or> \<not> PyIndex_Check demo_rt 8" by simp
  from k3 have d6: "tp_as_sequence (type_of demo_rt 6) = None \<or> \<not> PyIndex_Check demo_rt 3" by simp
  from SET_SUBSCRIPT_neither [OF m q d2, of 10 demo_state] n st
  have 1: "SET_SUBSCRIPT demo_rt 10 2 8 demo_state =
     (Thrown (Some (PyExc_TypeError,
        [CHR 0x27] @ ''int'' @ [CHR 0x27] @ '' object does not support item assignment'')),
      demo_state)"
    by simp
  from SET_SUBSCRIPT_neither [OF m6 q6 d6, of 10 demo_state] n6 st
  have 2: "SET_SUBSCRIPT demo_rt 10 6 3 demo_state =
     (Thrown (Some (PyExc_TypeError,
        [CHR 0x27] @ ''set'' @ [CHR 0x27] @ '' object does not support item assignment'')),
      demo_state)"
    by simp
  from m q t k8 m6 q6 t6 k3 1 2 show ?thesis by simp
qed

section \<open>The deletion\<close>

text \<open>
  C8. The deletion looks at no capability and has no fast path: it is the call of
  \<open>PyObject_DelItem\<close> on the target and the key, whatever the types are. It returns
  normally exactly when the status of that call is not the failure status -1, and a
  failure status is turned into a throw of the pending error.
\<close>

theorem DEL_SUBSCRIPT_delegates:
  "DEL_SUBSCRIPT rt target subscript s =
     (case PyObject_DelItem rt target subscript s of
        (status, s') \<Rightarrow>
          if status = - 1 then (Thrown (curexc s'), s'\<lparr>curexc := None\<rparr>) else (Returned (), s')) \<and>
   (fst (DEL_SUBSCRIPT rt target subscript s) = Returned ()) =
     (fst (PyObject_DelItem rt target subscript s) \<noteq> - 1) \<and>
   DEL_SUBSCRIPT (rt\<lparr>Py_TYPE := ty, typeobjects := tos, PyIndex_Check := ic\<rparr>) target subscript s =
     DEL_SUBSCRIPT rt target subscript s"
  by (simp add: DEL_SUBSCRIPT_def throw_if_minus_one_def throw_PythonException_def
      split: prod.split)

section \<open>Index normalisation\<close>

text \<open>
  C9. Normalising an index that is already absolute and in range, \<open>0 \<le> i < N\<close>, gives
  \<open>i\<close> back, so normalising the result once more changes nothing.
\<close>

theorem normalize_subscript_absolute:
  assumes "0 \<le> sint i" and "sint i < sint n"
  shows "normalize_subscript i n = Some i \<and>
         Option.bind (normalize_subscript i n) (\<lambda>j. normalize_subscript j n) = Some i"
  using assms by (simp add: normalize_subscript_def word_sless_alt word_sle_eq)

text \<open>C9, witness: index 1 in a container of length 3.\<close>

theorem normalize_subscript_absolute_witness:
  "0 \<le> sint (1 :: Py_ssize_t) \<and> sint (1 :: Py_ssize_t) < sint (3 :: Py_ssize_t) \<and>
   normalize_subscript 1 3 = Some 1 \<and>
   Option.bind (normalize_subscript 1 3) (\<lambda>j. normalize_subscript j 3) = Some 1"
proof -
  have a: "0 \<le> sint (1 :: Py_ssize_t)" and b: "sint (1 :: Py_ssize_t) < sint (3 :: Py_ssize_t)"
    by simp_all
  from normalize_subscript_absolute [OF a b] a b show ?thesis by simp
qed

section \<open>The converted index -1\<close>

text \<open>
  C10. In the sequence path of the write, when the conversion of an index-like key
  gives -1, the write raises only if the conversion left an error pending. A key that
  denotes the index -1, converted with no error pending, goes on to
  \<open>SEQUENCE_SETITEM\<close> with the index -1.
\<close>

theorem SET_SUBSCRIPT_minus_one:
  assumes "slot_of (tp_as_mapping (type_of rt target)) mp_ass_subscript = None"
    and "tp_as_sequence (type_of rt target) \<noteq> None"
    and "PyIndex_Check rt subscript"
    and "PyNumber_AsSsize_t rt subscript PyExc_IndexError s = (- 1, s')"
  shows "(curexc s' \<noteq> None \<longrightarrow>
            SET_SUBSCRIPT rt val target subscript s = (Thrown (curexc s'), s'\<lparr>curexc := None\<rparr>)) \<and>
         (curexc s' = None \<longrightarrow>
            SET_SUBSCRIPT rt val target subscript s = SEQUENCE_SETITEM rt target (- 1) val s')"
  using assms
  by (simp add: SET_SUBSCRIPT_def Let_def THROW_IF_ERROR_OCCURED_def throw_PythonException_def
      and_then_def)

text \<open>
  C10, witness: on the \<open>deque\<close> (object 5), the key -1 (object 8) stores the value at the
  last position; the key \<open>2^63\<close> (object 7) also converts to -1, with an error pending,
  and the write raises it.
\<close>

theorem SET_SUBSCRIPT_minus_one_witness:
  "slot_of (tp_as_mapping (type_of demo_rt 5)) mp_ass_subscript = None \<and>
   tp_as_sequence (type_of demo_rt 5) \<noteq> None \<and>
   PyIndex_Check demo_rt 8 \<and>
   PyNumber_AsSsize_t demo_rt 8 PyExc_IndexError demo_state = (- 1, demo_state) \<and>
   curexc demo_state = None \<and>
   SET_SUBSCRIPT demo_rt 10 5 8 demo_state = SEQUENCE_SETITEM demo_rt 5 (- 1) 10 demo_state \<and>
   fst (SET_SUBSCRIPT demo_rt 10 5 8 demo_state) = Returned () \<and>
   ob_item (snd (SET_SUBSCRIPT demo_rt 10 5 8 demo_state)) 5 = [10, 20, 10] \<and>
   PyIndex_Check demo_rt 7 \<and>
   PyNumber_AsSsize_t demo_rt 7 PyExc_IndexError demo_state =
     (- 1, PyErr_Format PyExc_IndexError ''cannot fit int into an index-sized integer'' demo_state) \<and>
   fst (SET_SUBSCRIPT demo_rt 10 5 7 demo_state) =
     Thrown (Some (PyExc_IndexError, ''cannot fit int into an index-sized integer''))"
proof -
  have m: "slot_of (tp_as_mapping (type_of demo_rt 5)) mp_ass_subscript = None"
    and q: "tp_as_sequence (type_of demo_rt 5) \<noteq> None"
    and k8: "PyIndex_Check demo_rt 8" and k7: "PyIndex_Check demo_rt 7"
    and c8: "PyNumber_AsSsize_t demo_rt 8 PyExc_IndexError demo_state = (- 1, demo_state)"
    and c7: "PyNumber_AsSsize_t demo_rt 7 PyExc_IndexError demo_state =
               (- 1, PyErr_Format PyExc_IndexError ''cannot fit int into an index-sized integer'' demo_state)"
    and e: "curexc demo_state = None"
    by (simp_all add: demo_defs helper_defs)
  from SET_SUBSCRIPT_minus_one [OF m q k8 c8, of 10] e
  have 1: "SET_SUBSCRIPT demo_rt 10 5 8 demo_state = SEQUENCE_SETITEM demo_rt 5 (- 1) 10 demo_state"
    by simp
  have 2: "fst (SEQUENCE_SETITEM demo_rt 5 (- 1) 10 demo_state) = Returned ()"
          "ob_item (snd (SEQUENCE_SETITEM demo_rt 5 (- 1) 10 demo_state)) 5 = [10, 20, 10]"
    by (simp_all add: demo_defs helper_defs word_sless_alt)
  from SET_SUBSCRIPT_minus_one [OF m q k7 c7, of 10]
  have 3: "fst (SET_SUBSCRIPT demo_rt 10 5 7 demo_state) =
     Thrown (Some (PyExc_IndexError, ''cannot fit int into an index-sized integer''))"
    by (simp add: PyErr_Format_def)
  from m q k8 k7 c8 c7 e 1 2 3 show ?thesis by simp
qed

end
